theory Spec2Isabelle
  imports Main "HOL-Library.Word" "HOL-Library.Sublist"
begin

section \<open>The ALSA MIDI input wrapper \<^verbatim>\<open>midi_alsa.c\<close>\<close>

text \<open>
  The wrapper opens an ALSA sequencer client with one input port (\<^verbatim>\<open>midi_open\<close>), reads
  one driver event per call (\<^verbatim>\<open>midi_read_raw\<close>), prints a report about it
  (\<^verbatim>\<open>midi_process\<close>), copies it into the one static \<^verbatim>\<open>ALSAEvent\<close> of the file
  (\<^verbatim>\<open>create_pack\<close>) and hands out the address of that object (\<^verbatim>\<open>midi_read\<close>).

  The embedding passes the process state explicitly. The ALSA library is outside the
  file: what it answers to a call is an argument of the operation that makes the call.
\<close>

subsection \<open>Data\<close>

type_synonym u8 = "8 word"
type_synonym u32 = "32 word"

text \<open>
  \<^verbatim>\<open>struct ALSAEvent\<close>, field by field. \<^verbatim>\<open>note\<close> and \<^verbatim>\<open>value\<close> are command names of
  Isabelle and carry a suffix. \<^verbatim>\<open>value\<close> is a \<^verbatim>\<open>signed int\<close>: its 32 bits are read
  with \<open>sint\<close>.
\<close>

record ALSAEvent =
  type :: u8
  tick_time :: u32
  time_sec :: u32
  time_nano :: u32
  note_fld :: u8
  velocity :: u8
  off_velocity :: u8
  duration :: u32
  param :: u32
  value_fld :: u32
  channel :: u8

text \<open>
  The driver's \<^verbatim>\<open>snd_seq_event_t\<close> is declared in \<^verbatim>\<open><alsa/asoundlib.h>\<close>, which the
  file includes. The record has one field for each member path the file reads:
  \<^verbatim>\<open>ev->type\<close>, \<^verbatim>\<open>ev->time.tick\<close>, \<^verbatim>\<open>ev->time.time.tv_sec\<close>, \<^verbatim>\<open>ev->time.time.tv_nsec\<close>,
  \<^verbatim>\<open>ev->data.note.*\<close> and \<^verbatim>\<open>ev->data.control.*\<close>, each of the width of the
  \<^verbatim>\<open>ALSAEvent\<close> field it is assigned to. \<^verbatim>\<open>time\<close> and \<^verbatim>\<open>data\<close> are unions in the
  header; the record keeps every member as a view of its own and does not constrain how
  the views overlap, so a statement about all records covers every event the driver
  can deliver.
\<close>

record snd_seq_event_t =
  ev_type :: u8
  time_tick :: u32
  time_tv_sec :: u32
  time_tv_nsec :: u32
  note_channel :: u8
  note_note :: u8
  note_velocity :: u8
  note_off_velocity :: u8
  note_duration :: u32
  control_param :: u32
  control_value :: u32

text \<open>
  The event type codes of \<^verbatim>\<open>enum snd_seq_event_type\<close> that the file names, with the
  values the ALSA header gives them.
\<close>

definition SND_SEQ_EVENT_NOTEON :: u8 where
  "SND_SEQ_EVENT_NOTEON = 6"

definition SND_SEQ_EVENT_NOTEOFF :: u8 where
  "SND_SEQ_EVENT_NOTEOFF = 7"

definition SND_SEQ_EVENT_CONTROLLER :: u8 where
  "SND_SEQ_EVENT_CONTROLLER = 10"

text \<open>The calls into the ALSA library, recorded in the order they are made.\<close>

datatype seq_call =
  Seq_open
  | Seq_set_client_name
  | Seq_create_simple_port
  | Seq_event_input

text \<open>
  The process state: the three \<^verbatim>\<open>static\<close> objects of the file (\<open>None\<close> is the null
  handle), the address \<^verbatim>\<open>&event\<close> of the static event, the bytes written to standard
  output and the library calls made so far.
\<close>

record state =
  seq_handle :: "nat option"
  event :: ALSAEvent
  in_port :: int
  addr_event :: nat
  stdout :: string
  seq_calls :: "seq_call list"

text \<open>
  How a call ends: it returns a value, the process exits with a status
  (\<^verbatim>\<open>exit(1)\<close>), or a null pointer is dereferenced.
\<close>

datatype 'a outcome =
  Return 'a state
  | Exit int state
  | Null_dereference

fun then_do :: "'a outcome \<Rightarrow> ('a \<Rightarrow> state \<Rightarrow> 'b outcome) \<Rightarrow> 'b outcome" where
  "then_do (Return x s) f = f x s"
| "then_do (Exit n s) f = Exit n s"
| "then_do Null_dereference f = Null_dereference"

text \<open>
  An out-parameter of a library call: \<open>None\<close> when the library leaves the object as it
  was, \<open>Some v\<close> when it stores \<open>v\<close> there.
\<close>

fun store_out :: "'a option \<Rightarrow> 'a \<Rightarrow> 'a" where
  "store_out None old = old"
| "store_out (Some v) old = v"

subsection \<open>Formatted output\<close>

text \<open>
  \<^verbatim>\<open>printf\<close> for the directives the file uses: \<^verbatim>\<open>%d\<close>, \<^verbatim>\<open>%s\<close>, \<^verbatim>\<open>%p\<close> and \<^verbatim>\<open>%x\<close>
  with an optional minimum field width (\<^verbatim>\<open>%2x\<close>), padded with spaces on the left.
  An integer argument arrives as 32 bits after the default promotions: \<^verbatim>\<open>%d\<close> reads
  them as signed, \<^verbatim>\<open>%x\<close> as unsigned. A pointer is printed as \<^verbatim>\<open>0x\<close> and its
  hexadecimal digits. The C standard leaves a directive without an argument of its kind
  undefined; here the output stops at a directive with no argument left and a directive
  prints nothing for an argument of another kind. No call of the file is of that form.
\<close>

datatype vararg = Word32 u32 | Str string | Ptr nat

definition digit_char :: "nat \<Rightarrow> char" where
  "digit_char n = ''0123456789abcdef'' ! (n mod 16)"

fun dec :: "nat \<Rightarrow> string" where
  "dec n = (if n < 10 then [digit_char n] else dec (n div 10) @ [digit_char (n mod 10)])"

declare dec.simps [simp del]

fun hex :: "nat \<Rightarrow> string" where
  "hex n = (if n < 16 then [digit_char n] else hex (n div 16) @ [digit_char (n mod 16)])"

declare hex.simps [simp del]

definition fmt_d :: "int \<Rightarrow> string" where
  "fmt_d i = (if i < 0 then CHR ''-'' # dec (nat (- i)) else dec (nat i))"

definition fmt_x :: "nat \<Rightarrow> string" where
  "fmt_x n = hex n"

definition fmt_p :: "nat \<Rightarrow> string" where
  "fmt_p a = ''0x'' @ hex a"

definition pad :: "nat \<Rightarrow> string \<Rightarrow> string" where
  "pad w s = replicate (w - length s) CHR '' '' @ s"

definition is_digit :: "char \<Rightarrow> bool" where
  "is_digit c = (c \<in> set ''0123456789'')"

definition digit_val :: "char \<Rightarrow> nat" where
  "digit_val c = of_char c - 48"

fun directive :: "string \<Rightarrow> nat \<Rightarrow> (nat \<times> char \<times> string) option" where
  "directive [] w = None"
| "directive (c # cs) w =
     (if is_digit c then directive cs (10 * w + digit_val c) else Some (w, c, cs))"

fun conversion :: "char \<Rightarrow> vararg \<Rightarrow> string" where
  "conversion c (Word32 w) =
     (if c = CHR ''d'' then fmt_d (sint w)
      else if c = CHR ''x'' then fmt_x (unat w)
      else [])"
| "conversion c (Str s) = (if c = CHR ''s'' then s else [])"
| "conversion c (Ptr a) = (if c = CHR ''p'' then fmt_p a else [])"

lemma directive_shorter:
  "directive cs w = Some (w', k, rest) \<Longrightarrow> length rest < length cs"
  by (induction cs arbitrary: w) (auto split: if_splits intro: less_SucI)

function printf :: "string \<Rightarrow> vararg list \<Rightarrow> string" where
  "printf [] args = []"
| "printf (c # cs) args =
     (if c = CHR ''%'' then
        (case directive cs 0 of
           None \<Rightarrow> []
         | Some (w, k, rest) \<Rightarrow>
             (case args of
                [] \<Rightarrow> []
              | a # as \<Rightarrow> pad w (conversion k a) @ printf rest as))
      else c # printf cs args)"
  by pat_completeness auto
termination
  by (relation "measure (\<lambda>(fmt, args). length fmt)")
     (auto dest: directive_shorter intro: less_SucI)

definition print :: "string \<Rightarrow> state \<Rightarrow> state" where
  "print text s = s\<lparr>stdout := stdout s @ text\<rparr>"

definition puts :: "string \<Rightarrow> state \<Rightarrow> state" where
  "puts text s = print (text @ ''\<newline>'') s"

definition called :: "seq_call \<Rightarrow> state \<Rightarrow> state" where
  "called c s = s\<lparr>seq_calls := seq_calls s @ [c]\<rparr>"

subsection \<open>\<^verbatim>\<open>midi_open\<close>\<close>

text \<open>
  \<^verbatim>\<open>#define CHK(stmt, msg) if ((stmt) < 0) {puts("ERROR: "#msg); exit(1);}\<close>
  The operator \<^verbatim>\<open>#\<close> turns the macro argument, itself a string literal, into text:
  the message is printed between the double quotes of the literal, with a backslash
  before every double quote and backslash inside it. \<open>stringify\<close> takes the
  characters of the literal.
\<close>

definition stringify :: "string \<Rightarrow> string" where
  "stringify lit =
     [CHR 0x22] @
     concat (map (\<lambda>c. if c = CHR 0x22 \<or> c = CHR 0x5C then [CHR 0x5C, c] else [c]) lit) @
     [CHR 0x22]"

definition CHK :: "int \<Rightarrow> string \<Rightarrow> state \<Rightarrow> unit outcome" where
  "CHK stmt msg s =
     (if stmt < 0 then Exit 1 (puts (''ERROR: '' @ stringify msg) s)
      else Return () s)"

text \<open>
  What the library answers during \<^verbatim>\<open>midi_open\<close>: the return codes of the three
  calls and what \<^verbatim>\<open>snd_seq_open\<close> stores in \<^verbatim>\<open>seq_handle\<close>.
\<close>

record open_answers =
  open_rc :: int
  open_handle :: "nat option option"
  set_client_name_rc :: int
  create_simple_port_rc :: int

definition midi_open :: "open_answers \<Rightarrow> state \<Rightarrow> unit outcome" where
  "midi_open r s =
     (let s1 = (called Seq_open s)\<lparr>seq_handle := store_out (open_handle r) (seq_handle s)\<rparr>
      in then_do (CHK (open_rc r) ''Could not open sequencer!'' s1) (\<lambda>_ s2.
         then_do (CHK (set_client_name_rc r) ''Could not set client name!''
                    (called Seq_set_client_name s2)) (\<lambda>_ s3.
         CHK (create_simple_port_rc r) ''Could not open port!''
           ((called Seq_create_simple_port s3)\<lparr>in_port := create_simple_port_rc r\<rparr>))))"

subsection \<open>\<^verbatim>\<open>midi_read_raw\<close>, \<^verbatim>\<open>create_pack\<close>, \<^verbatim>\<open>midi_process\<close>, \<^verbatim>\<open>midi_read\<close>\<close>

text \<open>
  What the library answers to \<^verbatim>\<open>snd_seq_event_input(seq_handle, &ev)\<close>: its return
  code and what it stores in \<^verbatim>\<open>ev\<close>, a pointer to an event (\<open>Some e\<close>) or null.
\<close>

record input_answer =
  input_rc :: int
  input_ev :: "snd_seq_event_t option option"

definition midi_read_raw :: "input_answer \<Rightarrow> state \<Rightarrow> snd_seq_event_t option outcome" where
  "midi_read_raw r s =
     (let ev = None;
          ev = store_out (input_ev r) ev
      in Return ev (called Seq_event_input s))"

definition create_pack :: "snd_seq_event_t option \<Rightarrow> state \<Rightarrow> unit outcome" where
  "create_pack ev s =
     (case ev of
        None \<Rightarrow> Null_dereference
      | Some e \<Rightarrow>
          (let s1 = s\<lparr>event := (event s)\<lparr>type := ev_type e\<rparr>\<rparr>;
               s2 = print (printf ''Internal event type %d\<newline>''
                             [Word32 (ucast (type (event s1)))]) s1;
               s3 = s2\<lparr>event := (event s2)
                      \<lparr>tick_time := time_tick e,
                       time_sec := time_tv_sec e,
                       time_nano := time_tv_nsec e,
                       note_fld := note_note e,
                       velocity := note_velocity e,
                       off_velocity := note_off_velocity e,
                       duration := note_duration e,
                       param := control_param e,
                       value_fld := control_value e,
                       channel := note_channel e\<rparr>\<rparr>
           in Return () (print (printf ''New event location %p\<newline>''
                                  [Ptr (addr_event s3)]) s3)))"

definition midi_process :: "snd_seq_event_t option \<Rightarrow> state \<Rightarrow> unit outcome" where
  "midi_process ev s =
     (case ev of
        None \<Rightarrow> Null_dereference
      | Some e \<Rightarrow>
          (let s1 = print (printf ''Event type: %d\<newline>'' [Word32 (ucast (ev_type e))]) s
           in if ev_type e = SND_SEQ_EVENT_NOTEON \<or> ev_type e = SND_SEQ_EVENT_NOTEOFF then
                (let type = (if ev_type e = SND_SEQ_EVENT_NOTEON then ''on '' else ''off'')
                 in Return () (print (printf ''[%d] Note %s: %2x vel(%2x)\<newline>''
                                 [Word32 (time_tick e), Str type,
                                  Word32 (ucast (note_note e)),
                                  Word32 (ucast (note_velocity e))]) s1))
              else if ev_type e = SND_SEQ_EVENT_CONTROLLER then
                Return () (print (printf ''[%d] Control: %2x val(%2x)\<newline>''
                             [Word32 (time_tick e), Word32 (control_param e),
                              Word32 (control_value e)]) s1)
              else
                Return () (print (printf ''[%d] Unknown: Unhandled Event Received\<newline>''
                             [Word32 (time_tick e)]) s1)))"

definition midi_read :: "input_answer \<Rightarrow> state \<Rightarrow> nat outcome" where
  "midi_read r s =
     then_do (midi_read_raw r s) (\<lambda>thing s1.
     then_do (midi_process thing s1) (\<lambda>_ s2.
     then_do (create_pack thing s2) (\<lambda>_ s3.
       (let s4 = print (printf ''--== ALSA Event data: ==--\<newline>'' []) s3;
            s5 = print (printf ''Type: %d\<newline>'' [Word32 (ucast (type (event s4)))]) s4;
            s6 = print (printf ''Note: %d\<newline>'' [Word32 (ucast (note_fld (event s5)))]) s5
        in Return (addr_event s6) s6))))"

text \<open>Reading through a pointer to an \<^verbatim>\<open>ALSAEvent\<close>: the only such object is the static one.\<close>

definition load_event :: "state \<Rightarrow> nat \<Rightarrow> ALSAEvent option" where
  "load_event s p = (if p = addr_event s then Some (event s) else None)"

subsection \<open>The read cycle in the order the specification words it\<close>

text \<open>
  The specification describes the cycle as: the raw event is decoded into the slot,
  then the classifier dispatches on the normalized event. The two definitions below
  follow these words, with the format strings of \<^verbatim>\<open>midi_process\<close> and the fields of
  the slot in the place of the members of the driver event. They are not code of the
  file; \<open>midi_read\<close> is compared with them.
\<close>

definition spec_classify_and_report :: "state \<Rightarrow> unit outcome" where
  "spec_classify_and_report s =
     (let n = event s;
          s1 = print (printf ''Event type: %d\<newline>'' [Word32 (ucast (type n))]) s
      in if type n = SND_SEQ_EVENT_NOTEON \<or> type n = SND_SEQ_EVENT_NOTEOFF then
           (let marker = (if type n = SND_SEQ_EVENT_NOTEON then ''on '' else ''off'')
            in Return () (print (printf ''[%d] Note %s: %2x vel(%2x)\<newline>''
                            [Word32 (tick_time n), Str marker,
                             Word32 (ucast (note_fld n)),
                             Word32 (ucast (velocity n))]) s1))
         else if type n = SND_SEQ_EVENT_CONTROLLER then
           Return () (print (printf ''[%d] Control: %2x val(%2x)\<newline>''
                        [Word32 (tick_time n), Word32 (param n), Word32 (value_fld n)]) s1)
         else
           Return () (print (printf ''[%d] Unknown: Unhandled Event Received\<newline>''
                        [Word32 (tick_time n)]) s1))"

definition spec_read_cycle :: "input_answer \<Rightarrow> state \<Rightarrow> nat outcome" where
  "spec_read_cycle r s =
     then_do (midi_read_raw r s) (\<lambda>thing s1.
     then_do (create_pack thing s1) (\<lambda>_ s2.
     then_do (spec_classify_and_report s2) (\<lambda>_ s3.
       (let s4 = print (printf ''--== ALSA Event data: ==--\<newline>'' []) s3;
            s5 = print (printf ''Type: %d\<newline>'' [Word32 (ucast (type (event s4)))]) s4;
            s6 = print (printf ''Note: %d\<newline>'' [Word32 (ucast (note_fld (event s5)))]) s5
        in Return (addr_event s6) s6))))"

subsection \<open>Observing an outcome\<close>

text \<open>The state a call returns with, and the bytes on standard output when it ends.\<close>

fun state_of :: "'a outcome \<Rightarrow> state option" where
  "state_of (Return x s) = Some s"
| "state_of (Exit n s) = None"
| "state_of Null_dereference = None"

fun output_of :: "'a outcome \<Rightarrow> string" where
  "output_of (Return x s) = stdout s"
| "output_of (Exit n s) = stdout s"
| "output_of Null_dereference = []"

subsection \<open>Concrete inputs\<close>

text \<open>
  The state of a fresh process: objects of static storage duration start as zero, and
  nothing has been printed or called. The argument is the address of \<^verbatim>\<open>event\<close>.
\<close>

definition initial_state :: "nat \<Rightarrow> state" where
  "initial_state a =
     \<lparr>seq_handle = None,
      event = \<lparr>type = 0, tick_time = 0, time_sec = 0, time_nano = 0, note_fld = 0,
                velocity = 0, off_velocity = 0, duration = 0, param = 0, value_fld = 0,
                channel = 0\<rparr>,
      in_port = 0, addr_event = a, stdout = [], seq_calls = []\<rparr>"

text \<open>
  Four driver events. In each, the views that share storage in the header's unions
  agree: \<^verbatim>\<open>time.tick\<close> with \<^verbatim>\<open>time.time.tv_sec\<close>, and \<^verbatim>\<open>data.note.duration\<close> with
  \<^verbatim>\<open>data.control.param\<close>. A note-on and a note-off of key \<^verbatim>\<open>0x40\<close>, controller 7 set
  to 100, and a program change (type code 11), which the file does not name.
\<close>

definition note_on_example :: snd_seq_event_t where
  "note_on_example =
     \<lparr>ev_type = 6, time_tick = 100, time_tv_sec = 100, time_tv_nsec = 0,
      note_channel = 0, note_note = 0x40, note_velocity = 0x7F, note_off_velocity = 0,
      note_duration = 0, control_param = 0, control_value = 0\<rparr>"

definition note_off_example :: snd_seq_event_t where
  "note_off_example =
     \<lparr>ev_type = 7, time_tick = 220, time_tv_sec = 220, time_tv_nsec = 0,
      note_channel = 0, note_note = 0x40, note_velocity = 0, note_off_velocity = 0,
      note_duration = 0, control_param = 0, control_value = 0\<rparr>"

definition controller_example :: snd_seq_event_t where
  "controller_example =
     \<lparr>ev_type = 10, time_tick = 50, time_tv_sec = 50, time_tv_nsec = 0,
      note_channel = 0, note_note = 0, note_velocity = 0, note_off_velocity = 0,
      note_duration = 7, control_param = 7, control_value = 100\<rparr>"

definition program_change_example :: snd_seq_event_t where
  "program_change_example =
     \<lparr>ev_type = 11, time_tick = 300, time_tv_sec = 300, time_tv_nsec = 0,
      note_channel = 2, note_note = 0, note_velocity = 0, note_off_velocity = 0,
      note_duration = 0, control_param = 0, control_value = 5\<rparr>"

definition delivers :: "snd_seq_event_t \<Rightarrow> input_answer" where
  "delivers e = \<lparr>input_rc = 1, input_ev = Some (Some e)\<rparr>"

section \<open>Properties\<close>

subsection \<open>Formatting\<close>

lemma unat_ucast8: "unat (ucast (w :: u8) :: u32) = unat w"
  by transfer (simp add: take_bit_eq_mod)

lemma sint_ucast8: "sint (ucast (w :: u8) :: u32) = uint w"
  by transfer (simp add: take_bit_eq_mod signed_take_bit_eq_take_bit_shift)

lemma pad_0: "pad 0 s = s"
  by (simp add: pad_def)


lemma digit_char_hex: "digit_char n \<in> set ''0123456789abcdef''"
  unfolding digit_char_def by (rule nth_mem) simp

lemma dec_chars: "set (dec n) \<subseteq> set ''0123456789abcdef''"
proof (induction n rule: dec.induct)
  case (1 n)
  show ?case
  proof (cases "n < 10")
    case True
    then show ?thesis
      using digit_char_hex [of n] by (subst dec.simps) simp
  next
    case False
    with 1 show ?thesis
      using digit_char_hex [of "n mod 10"] by (subst dec.simps) simp
  qed
qed

lemma hex_chars: "set (hex n) \<subseteq> set ''0123456789abcdef''"
proof (induction n rule: hex.induct)
  case (1 n)
  show ?case
  proof (cases "n < 16")
    case True
    then show ?thesis
      using digit_char_hex [of n] by (subst hex.simps) simp
  next
    case False
    with 1 show ?thesis
      using digit_char_hex [of "n mod 16"] by (subst hex.simps) simp
  qed
qed

lemma no_U_in_fmt_d: "CHR ''U'' \<notin> set (fmt_d i)"
  using dec_chars [of "nat i"] dec_chars [of "nat (- i)"] by (auto simp: fmt_d_def)

lemma no_U_in_fmt_p: "CHR ''U'' \<notin> set (fmt_p a)"
  using hex_chars [of a] by (auto simp: fmt_p_def)

lemma sublist_needs_chars: "sublist xs ys \<Longrightarrow> set xs \<subseteq> set ys"
  by (auto simp: sublist_def)

lemma printf_d:
  "printf (CHR ''%'' # CHR ''d'' # fmt) (Word32 w # args) = fmt_d (sint w) @ printf fmt args"
  by (simp add: is_digit_def pad_0)

lemma printf_s:
  "printf (CHR ''%'' # CHR ''s'' # fmt) (Str t # args) = t @ printf fmt args"
  by (simp add: is_digit_def pad_0)

lemma printf_p:
  "printf (CHR ''%'' # CHR ''p'' # fmt) (Ptr a # args) = fmt_p a @ printf fmt args"
  by (simp add: is_digit_def pad_0)

lemma printf_2x:
  "printf (CHR ''%'' # CHR ''2'' # CHR ''x'' # fmt) (Word32 w # args) =
     pad 2 (fmt_x (unat w)) @ printf fmt args"
proof -
  have "directive (CHR ''2'' # CHR ''x'' # fmt) 0 = Some (2, CHR ''x'', fmt)"
    by (simp add: is_digit_def digit_val_def)
  then show ?thesis
    by simp
qed

lemma printf_char:
  "c \<noteq> CHR ''%'' \<Longrightarrow> printf (c # fmt) args = c # printf fmt args"
  by simp

declare printf.simps(2) [simp del]

lemmas printf_steps = printf_d printf_s printf_p printf_2x printf_char

lemma printf_event_type:
  "printf ''Event type: %d\<newline>'' [Word32 (ucast (t :: u8))] =
     ''Event type: '' @ fmt_d (uint t) @ ''\<newline>''"
  by (simp add: printf_steps sint_ucast8)

lemma printf_internal_event_type:
  "printf ''Internal event type %d\<newline>'' [Word32 (ucast (t :: u8))] =
     ''Internal event type '' @ fmt_d (uint t) @ ''\<newline>''"
  by (simp add: printf_steps sint_ucast8)

lemma printf_new_event_location:
  "printf ''New event location %p\<newline>'' [Ptr a] =
     ''New event location '' @ fmt_p a @ ''\<newline>''"
  by (simp add: printf_steps)

lemma printf_note:
  "printf ''[%d] Note %s: %2x vel(%2x)\<newline>''
     [Word32 t, Str m, Word32 (ucast (n :: u8)), Word32 (ucast (v :: u8))] =
   ''['' @ fmt_d (sint t) @ ''] Note '' @ m @ '': '' @ pad 2 (fmt_x (unat n)) @
   '' vel('' @ pad 2 (fmt_x (unat v)) @ '')\<newline>''"
  by (simp add: printf_steps unat_ucast8)

lemma printf_control:
  "printf ''[%d] Control: %2x val(%2x)\<newline>'' [Word32 t, Word32 p, Word32 v] =
   ''['' @ fmt_d (sint t) @ ''] Control: '' @ pad 2 (fmt_x (unat p)) @
   '' val('' @ pad 2 (fmt_x (unat v)) @ '')\<newline>''"
  by (simp add: printf_steps)

lemma printf_unknown:
  "printf ''[%d] Unknown: Unhandled Event Received\<newline>'' [Word32 t] =
   ''['' @ fmt_d (sint t) @ ''] Unknown: Unhandled Event Received\<newline>''"
  by (simp add: printf_steps)

lemma printf_banner:
  "printf ''--== ALSA Event data: ==--\<newline>'' [] = ''--== ALSA Event data: ==--\<newline>''"
  by (simp add: printf_steps)

lemma printf_type:
  "printf ''Type: %d\<newline>'' [Word32 (ucast (t :: u8))] = ''Type: '' @ fmt_d (uint t) @ ''\<newline>''"
  by (simp add: printf_steps sint_ucast8)

lemma printf_note_line:
  "printf ''Note: %d\<newline>'' [Word32 (ucast (t :: u8))] = ''Note: '' @ fmt_d (uint t) @ ''\<newline>''"
  by (simp add: printf_steps sint_ucast8)

lemmas printf_lines =
  printf_event_type printf_internal_event_type printf_new_event_location printf_note
  printf_control printf_unknown printf_banner printf_type printf_note_line

subsection \<open>The operations on a delivered event\<close>

lemma create_pack_Some:
  "create_pack (Some e) s =
     Return ()
       (s\<lparr>event :=
            \<lparr>type = ev_type e, tick_time = time_tick e, time_sec = time_tv_sec e,
             time_nano = time_tv_nsec e, note_fld = note_note e,
             velocity = note_velocity e, off_velocity = note_off_velocity e,
             duration = note_duration e, param = control_param e,
             value_fld = control_value e, channel = note_channel e\<rparr>,
          stdout := stdout s @ ''Internal event type '' @ fmt_d (uint (ev_type e)) @
            ''\<newline>'' @ ''New event location '' @ fmt_p (addr_event s) @ ''\<newline>''\<rparr>)"
  by (simp add: create_pack_def Let_def print_def printf_internal_event_type
      printf_new_event_location)


lemma print_print: "print b (print a s) = print (a @ b) s"
  by (simp add: print_def)

lemma type_codes_distinct:
  "SND_SEQ_EVENT_NOTEON \<noteq> SND_SEQ_EVENT_NOTEOFF"
  "SND_SEQ_EVENT_NOTEOFF \<noteq> SND_SEQ_EVENT_NOTEON"
  "SND_SEQ_EVENT_NOTEON \<noteq> SND_SEQ_EVENT_CONTROLLER"
  "SND_SEQ_EVENT_CONTROLLER \<noteq> SND_SEQ_EVENT_NOTEON"
  "SND_SEQ_EVENT_NOTEOFF \<noteq> SND_SEQ_EVENT_CONTROLLER"
  "SND_SEQ_EVENT_CONTROLLER \<noteq> SND_SEQ_EVENT_NOTEOFF"
  by (simp_all add: SND_SEQ_EVENT_NOTEON_def SND_SEQ_EVENT_NOTEOFF_def
      SND_SEQ_EVENT_CONTROLLER_def)

text \<open>
  What \<^verbatim>\<open>midi_process\<close> does in each of its branches, on the whole state: it appends
  to standard output and changes nothing else. The tick is printed with \<^verbatim>\<open>%d\<close>, which
  reads its 32 bits as signed.
\<close>

lemma midi_process_note_on:
  "ev_type e = SND_SEQ_EVENT_NOTEON \<Longrightarrow>
   midi_process (Some e) s =
     Return () (s\<lparr>stdout := stdout s @
       ''Event type: '' @ fmt_d (uint (ev_type e)) @ ''\<newline>'' @
       ''['' @ fmt_d (sint (time_tick e)) @ ''] Note on : '' @
       pad 2 (fmt_x (unat (note_note e))) @ '' vel('' @
       pad 2 (fmt_x (unat (note_velocity e))) @ '')\<newline>''\<rparr>)"
  by (simp add: midi_process_def Let_def print_print printf_event_type printf_note)
    (simp add: print_def)

lemma midi_process_note_off:
  "ev_type e = SND_SEQ_EVENT_NOTEOFF \<Longrightarrow>
   midi_process (Some e) s =
     Return () (s\<lparr>stdout := stdout s @
       ''Event type: '' @ fmt_d (uint (ev_type e)) @ ''\<newline>'' @
       ''['' @ fmt_d (sint (time_tick e)) @ ''] Note off: '' @
       pad 2 (fmt_x (unat (note_note e))) @ '' vel('' @
       pad 2 (fmt_x (unat (note_velocity e))) @ '')\<newline>''\<rparr>)"
  by (simp add: midi_process_def Let_def print_print printf_event_type printf_note
      type_codes_distinct)
    (simp add: print_def)

lemma midi_process_controller:
  "ev_type e = SND_SEQ_EVENT_CONTROLLER \<Longrightarrow>
   midi_process (Some e) s =
     Return () (s\<lparr>stdout := stdout s @
       ''Event type: '' @ fmt_d (uint (ev_type e)) @ ''\<newline>'' @
       ''['' @ fmt_d (sint (time_tick e)) @ ''] Control: '' @
       pad 2 (fmt_x (unat (control_param e))) @ '' val('' @
       pad 2 (fmt_x (unat (control_value e))) @ '')\<newline>''\<rparr>)"
  by (simp add: midi_process_def Let_def print_print printf_event_type printf_control
      type_codes_distinct)
    (simp add: print_def)

lemma midi_process_other:
  "ev_type e \<noteq> SND_SEQ_EVENT_NOTEON \<Longrightarrow> ev_type e \<noteq> SND_SEQ_EVENT_NOTEOFF \<Longrightarrow>
   ev_type e \<noteq> SND_SEQ_EVENT_CONTROLLER \<Longrightarrow>
   midi_process (Some e) s =
     Return () (s\<lparr>stdout := stdout s @
       ''Event type: '' @ fmt_d (uint (ev_type e)) @ ''\<newline>'' @
       ''['' @ fmt_d (sint (time_tick e)) @
       ''] Unknown: Unhandled Event Received\<newline>''\<rparr>)"
  by (simp add: midi_process_def Let_def print_print printf_event_type printf_unknown)
    (simp add: print_def)

lemma midi_process_returns:
  "\<exists>out. \<forall>s. midi_process (Some e) s = Return () (s\<lparr>stdout := stdout s @ out\<rparr>)"
proof -
  consider "ev_type e = SND_SEQ_EVENT_NOTEON" | "ev_type e = SND_SEQ_EVENT_NOTEOFF"
    | "ev_type e = SND_SEQ_EVENT_CONTROLLER"
    | "ev_type e \<noteq> SND_SEQ_EVENT_NOTEON" "ev_type e \<noteq> SND_SEQ_EVENT_NOTEOFF"
      "ev_type e \<noteq> SND_SEQ_EVENT_CONTROLLER"
    by blast
  then show ?thesis
  proof cases
    case 1
    then show ?thesis using midi_process_note_on by blast
  next
    case 2
    then show ?thesis using midi_process_note_off by blast
  next
    case 3
    then show ?thesis using midi_process_controller by blast
  next
    case 4
    then show ?thesis using midi_process_other by blast
  qed
qed

lemma midi_read_raw_eq:
  "midi_read_raw r s = Return (store_out (input_ev r) None) (called Seq_event_input s)"
  by (simp add: midi_read_raw_def)

lemma midi_read_delivered:
  assumes "midi_process (Some e) (called Seq_event_input s) = Return () s2"
    and "create_pack (Some e) s2 = Return () s3"
  shows "midi_read \<lparr>input_rc = c, input_ev = Some (Some e)\<rparr> s =
     Return (addr_event s3)
       (s3\<lparr>stdout := stdout s3 @
          ''--== ALSA Event data: ==--\<newline>'' @
          ''Type: '' @ fmt_d (uint (type (event s3))) @ ''\<newline>'' @
          ''Note: '' @ fmt_d (uint (note_fld (event s3))) @ ''\<newline>''\<rparr>)"
  using assms
  by (simp add: midi_read_def midi_read_raw_eq Let_def printf_banner printf_type
      printf_note_line print_print)
    (simp add: print_def)

lemma midi_read_via:
  assumes "\<And>t. midi_process (Some e) t = Return () (t\<lparr>stdout := stdout t @ out\<rparr>)"
  shows "midi_read \<lparr>input_rc = c, input_ev = Some (Some e)\<rparr> s =
     Return (addr_event s)
       (s\<lparr>event :=
            \<lparr>type = ev_type e, tick_time = time_tick e, time_sec = time_tv_sec e,
             time_nano = time_tv_nsec e, note_fld = note_note e,
             velocity = note_velocity e, off_velocity = note_off_velocity e,
             duration = note_duration e, param = control_param e,
             value_fld = control_value e, channel = note_channel e\<rparr>,
          stdout := stdout s @ out @
            ''Internal event type '' @ fmt_d (uint (ev_type e)) @ ''\<newline>'' @
            ''New event location '' @ fmt_p (addr_event s) @ ''\<newline>'' @
            ''--== ALSA Event data: ==--\<newline>'' @
            ''Type: '' @ fmt_d (uint (ev_type e)) @ ''\<newline>'' @
            ''Note: '' @ fmt_d (uint (note_note e)) @ ''\<newline>'',
          seq_calls := seq_calls s @ [Seq_event_input]\<rparr>)"
  by (simp add: midi_read_def midi_read_raw_eq assms create_pack_Some Let_def printf_banner
      printf_type printf_note_line)
    (simp add: print_def called_def)

lemma midi_read_Some:
  "\<exists>out. midi_read \<lparr>input_rc = c, input_ev = Some (Some e)\<rparr> s =
     Return (addr_event s)
       (s\<lparr>event :=
            \<lparr>type = ev_type e, tick_time = time_tick e, time_sec = time_tv_sec e,
             time_nano = time_tv_nsec e, note_fld = note_note e,
             velocity = note_velocity e, off_velocity = note_off_velocity e,
             duration = note_duration e, param = control_param e,
             value_fld = control_value e, channel = note_channel e\<rparr>,
          stdout := stdout s @ out,
          seq_calls := seq_calls s @ [Seq_event_input]\<rparr>)"
proof -
  obtain out where
    "\<And>t. midi_process (Some e) t = Return () (t\<lparr>stdout := stdout t @ out\<rparr>)"
    using midi_process_returns by blast
  from midi_read_via [OF this] show ?thesis
    by blast
qed

subsection \<open>Evaluating the concrete inputs\<close>

lemmas format_eval =
  fmt_d_def fmt_x_def fmt_p_def pad_def dec.simps hex.simps digit_char_def

lemmas example_defs =
  note_on_example_def note_off_example_def controller_example_def
  program_change_example_def initial_state_def delivers_def

lemmas type_code_defs =
  SND_SEQ_EVENT_NOTEON_def SND_SEQ_EVENT_NOTEOFF_def SND_SEQ_EVENT_CONTROLLER_def

subsection \<open>The claims about \<^verbatim>\<open>create_pack\<close>\<close>

text \<open>
  C1. For every driver event whose type is note-on or note-off, \<^verbatim>\<open>create_pack\<close> returns
  and leaves in the static event the note, velocity and channel of the event's note
  payload (and its type code); for every driver event whose type is controller, it
  leaves there the parameter number and the value of the event's control payload.
\<close>

theorem create_pack_note_and_controller_payload:
  "(ev_type e = SND_SEQ_EVENT_NOTEON \<or> ev_type e = SND_SEQ_EVENT_NOTEOFF \<longrightarrow>
      (\<exists>s'. create_pack (Some e) s = Return () s' \<and>
         type (event s') = ev_type e \<and>
         note_fld (event s') = note_note e \<and>
         velocity (event s') = note_velocity e \<and>
         channel (event s') = note_channel e)) \<and>
   (ev_type e = SND_SEQ_EVENT_CONTROLLER \<longrightarrow>
      (\<exists>s'. create_pack (Some e) s = Return () s' \<and>
         type (event s') = ev_type e \<and>
         param (event s') = control_param e \<and>
         value_fld (event s') = control_value e))"
  by (simp add: create_pack_Some)

theorem create_pack_note_and_controller_payload_witness:
  "(\<exists>s'. create_pack (Some note_on_example) (initial_state 4210784) = Return () s' \<and>
      type (event s') = 6 \<and> note_fld (event s') = 0x40 \<and>
      velocity (event s') = 0x7F \<and> channel (event s') = 0) \<and>
   (\<exists>s'. create_pack (Some controller_example) (initial_state 4210784) = Return () s' \<and>
      type (event s') = 10 \<and> param (event s') = 7 \<and> value_fld (event s') = 100)"
  using create_pack_note_and_controller_payload [of note_on_example "initial_state 4210784"]
    create_pack_note_and_controller_payload [of controller_example "initial_state 4210784"]
  by (simp add: note_on_example_def controller_example_def type_code_defs)

text \<open>
  C2. For every driver event, whatever its type, \<^verbatim>\<open>create_pack\<close> returns and the static
  event holds the event's tick counter in \<^verbatim>\<open>tick_time\<close> and the seconds and nanoseconds
  of its timestamp in \<^verbatim>\<open>time_sec\<close> and \<^verbatim>\<open>time_nano\<close>.
\<close>

theorem create_pack_copies_time:
  "\<exists>s'. create_pack (Some e) s = Return () s' \<and>
     tick_time (event s') = time_tick e \<and>
     time_sec (event s') = time_tv_sec e \<and>
     time_nano (event s') = time_tv_nsec e"
  by (simp add: create_pack_Some)

text \<open>
  C3. For every driver event, whatever its type, \<^verbatim>\<open>create_pack\<close> copies the members of
  the note payload (note, velocity, off-velocity, duration, channel) and of the control
  payload (parameter, value) into the static event.
\<close>

theorem create_pack_copies_payload_unconditionally:
  "\<exists>s'. create_pack (Some e) s = Return () s' \<and>
     note_fld (event s') = note_note e \<and>
     velocity (event s') = note_velocity e \<and>
     off_velocity (event s') = note_off_velocity e \<and>
     duration (event s') = note_duration e \<and>
     channel (event s') = note_channel e \<and>
     param (event s') = control_param e \<and>
     value_fld (event s') = control_value e"
  by (simp add: create_pack_Some)

text \<open>
  C4, as the specification states it: an event whose type is none of note-on, note-off
  and controller is normalized to one kind, Unknown, and its raw code is not passed
  through. The program change (code 11) and an event of code 13 are both of no named
  type, yet the static event holds 11 after the first and 13 after the second: the raw
  code is the value of \<^verbatim>\<open>type\<close>, and no single value stands for Unknown.
\<close>

theorem create_pack_unknown_kind_counterexample:
  "ev_type program_change_example \<notin>
     {SND_SEQ_EVENT_NOTEON, SND_SEQ_EVENT_NOTEOFF, SND_SEQ_EVENT_CONTROLLER} \<and>
   ev_type (program_change_example\<lparr>ev_type := 13\<rparr>) \<notin>
     {SND_SEQ_EVENT_NOTEON, SND_SEQ_EVENT_NOTEOFF, SND_SEQ_EVENT_CONTROLLER} \<and>
   map_option (type \<circ> event)
     (state_of (create_pack (Some program_change_example) (initial_state 4210784))) = Some 11 \<and>
   map_option (type \<circ> event)
     (state_of (create_pack (Some (program_change_example\<lparr>ev_type := 13\<rparr>))
        (initial_state 4210784))) = Some 13"
  by (simp add: create_pack_Some program_change_example_def type_code_defs)

text \<open>
  C4, amended. For every driver event whose type is none of note-on, note-off and
  controller, \<^verbatim>\<open>create_pack\<close> returns: it has copied the raw type code, unchanged, into
  \<^verbatim>\<open>type\<close> of the static event (with the other members of the event), and it has printed
  its two trace lines, the raw code in decimal and the address of the slot, in which the
  word Unknown does not occur. For such an event \<^verbatim>\<open>midi_process\<close> prints, after its
  trace line, the line \<^verbatim>\<open>[n] Unknown: Unhandled Event Received\<close>, \<open>n\<close> being the tick as
  \<^verbatim>\<open>%d\<close> prints it; it changes nothing but standard output.
\<close>

theorem create_pack_passes_type_code_through:
  "ev_type e \<noteq> SND_SEQ_EVENT_NOTEON \<Longrightarrow> ev_type e \<noteq> SND_SEQ_EVENT_NOTEOFF \<Longrightarrow>
   ev_type e \<noteq> SND_SEQ_EVENT_CONTROLLER \<Longrightarrow>
   create_pack (Some e) s =
     Return ()
       (s\<lparr>event :=
            \<lparr>type = ev_type e, tick_time = time_tick e, time_sec = time_tv_sec e,
             time_nano = time_tv_nsec e, note_fld = note_note e,
             velocity = note_velocity e, off_velocity = note_off_velocity e,
             duration = note_duration e, param = control_param e,
             value_fld = control_value e, channel = note_channel e\<rparr>,
          stdout := stdout s @
            ''Internal event type '' @ fmt_d (uint (ev_type e)) @ ''\<newline>'' @
            ''New event location '' @ fmt_p (addr_event s) @ ''\<newline>''\<rparr>) \<and>
   \<not> sublist ''Unknown''
       (''Internal event type '' @ fmt_d (uint (ev_type e)) @ ''\<newline>'' @
        ''New event location '' @ fmt_p (addr_event s) @ ''\<newline>'') \<and>
   midi_process (Some e) s =
     Return ()
       (s\<lparr>stdout := stdout s @
          ''Event type: '' @ fmt_d (uint (ev_type e)) @ ''\<newline>'' @
          ''['' @ fmt_d (sint (time_tick e)) @
          ''] Unknown: Unhandled Event Received\<newline>''\<rparr>)"
proof -
  assume a: "ev_type e \<noteq> SND_SEQ_EVENT_NOTEON" "ev_type e \<noteq> SND_SEQ_EVENT_NOTEOFF"
    "ev_type e \<noteq> SND_SEQ_EVENT_CONTROLLER"
  let ?out = "''Internal event type '' @ fmt_d (uint (ev_type e)) @ ''\<newline>'' @
        ''New event location '' @ fmt_p (addr_event s) @ ''\<newline>''"
  have "CHR ''U'' \<notin> set ?out"
    by (simp add: no_U_in_fmt_d no_U_in_fmt_p)
  then have "\<not> sublist ''Unknown'' ?out"
    using sublist_needs_chars [of "''Unknown''" ?out] by auto
  then show ?thesis
    using create_pack_Some [of e s] midi_process_other [OF a, of s] by simp
qed

theorem create_pack_passes_type_code_through_witness:
  "create_pack (Some program_change_example) (initial_state 4210784) =
     Return ()
       ((initial_state 4210784)
          \<lparr>event :=
             \<lparr>type = 11, tick_time = 300, time_sec = 300, time_nano = 0, note_fld = 0,
              velocity = 0, off_velocity = 0, duration = 0, param = 0, value_fld = 5,
              channel = 2\<rparr>,
           stdout := ''Internal event type 11\<newline>New event location 0x404060\<newline>''\<rparr>) \<and>
   \<not> sublist ''Unknown'' ''Internal event type 11\<newline>New event location 0x404060\<newline>'' \<and>
   midi_process (Some program_change_example) (initial_state 4210784) =
     Return ()
       ((initial_state 4210784)
          \<lparr>stdout := ''Event type: 11\<newline>[300] Unknown: Unhandled Event Received\<newline>''\<rparr>)"
proof -
  have t: "ev_type program_change_example \<noteq> SND_SEQ_EVENT_NOTEON"
    "ev_type program_change_example \<noteq> SND_SEQ_EVENT_NOTEOFF"
    "ev_type program_change_example \<noteq> SND_SEQ_EVENT_CONTROLLER"
    by (simp_all add: program_change_example_def type_code_defs)
  have f: "fmt_d (uint (ev_type program_change_example)) = ''11''"
    "fmt_d (sint (time_tick program_change_example)) = ''300''"
    "fmt_p (addr_event (initial_state 4210784)) = ''0x404060''"
    "stdout (initial_state 4210784) = []"
    by (simp_all add: program_change_example_def initial_state_def format_eval)
  from create_pack_passes_type_code_through [OF t, of "initial_state 4210784"]
  show ?thesis
    unfolding f by (simp add: program_change_example_def)
qed

subsection \<open>The claims about \<^verbatim>\<open>midi_process\<close>\<close>



lemma note_on_example_text:
  "fmt_d (uint (ev_type note_on_example)) = ''6''"
  "fmt_d (uint (time_tick note_on_example)) = ''100''"
  "pad 2 (fmt_x (unat (note_note note_on_example))) = ''40''"
  "pad 2 (fmt_x (unat (note_velocity note_on_example))) = ''7f''"
  by (simp_all add: note_on_example_def format_eval)


lemma controller_example_text:
  "fmt_d (uint (ev_type controller_example)) = ''10''"
  "fmt_d (uint (time_tick controller_example)) = ''50''"
  "pad 2 (fmt_x (unat (control_param controller_example))) = '' 7''"
  "pad 2 (fmt_x (unat (control_value controller_example))) = ''64''"
  by (simp_all add: controller_example_def format_eval)


lemma example_types:
  "ev_type note_on_example = SND_SEQ_EVENT_NOTEON"
  "ev_type note_off_example = SND_SEQ_EVENT_NOTEOFF"
  "ev_type controller_example = SND_SEQ_EVENT_CONTROLLER"
  "ev_type program_change_example \<noteq> SND_SEQ_EVENT_NOTEON"
  "ev_type program_change_example \<noteq> SND_SEQ_EVENT_NOTEOFF"
  "ev_type program_change_example \<noteq> SND_SEQ_EVENT_CONTROLLER"
  by (simp_all add: example_defs type_code_defs)

lemma type_code_text:
  "fmt_d (uint SND_SEQ_EVENT_NOTEON) = ''6''"
  "fmt_d (uint SND_SEQ_EVENT_NOTEOFF) = ''7''"
  "fmt_d (uint SND_SEQ_EVENT_CONTROLLER) = ''10''"
  by (simp_all add: type_code_defs format_eval)


lemma controller_example_signed_tick:
  "fmt_d (sint (time_tick controller_example)) = ''50''"
  by (simp add: controller_example_def format_eval)


text \<open>
  C6, as the specification states it: the report line of the controller event with
  tick 50, parameter 7 and value 100 contains \<^verbatim>\<open>[50] Control: 7 val(100)\<close>. The format of
  the line is \<^verbatim>\<open>%2x\<close> for both numbers: the output of \<^verbatim>\<open>midi_process\<close> for this event
  does not contain that text.
\<close>

theorem controller_report_decimal_counterexample:
  "\<not> sublist ''[50] Control: 7 val(100)''
       (output_of (midi_process (Some controller_example) (initial_state 4210784)))"
proof -
  have "output_of (midi_process (Some controller_example) (initial_state 4210784)) =
      ''Event type: 10\<newline>[50] Control:  7 val(64)\<newline>''"
    by (simp add: midi_process_controller example_types type_code_text
        controller_example_text controller_example_signed_tick initial_state_def)
  then show ?thesis
    by (simp add: sublist_Cons_right)
qed

text \<open>
  C6, amended. For the controller event with tick 50, parameter 7 and value 100,
  \<^verbatim>\<open>create_pack\<close> leaves tick 50, parameter 7 and value 100 in the static event, and
  the report line of \<^verbatim>\<open>midi_process\<close> is \<^verbatim>\<open>[50] Control:  7 val(64)\<close>: the parameter and
  the value are printed in hexadecimal, two characters wide at least.
\<close>

theorem controller_scenario:
  "ev_type e = SND_SEQ_EVENT_CONTROLLER \<Longrightarrow> time_tick e = 50 \<Longrightarrow>
   control_param e = 7 \<Longrightarrow> control_value e = 100 \<Longrightarrow>
   (\<exists>s'. create_pack (Some e) s = Return () s' \<and>
      type (event s') = SND_SEQ_EVENT_CONTROLLER \<and> tick_time (event s') = 50 \<and>
      param (event s') = 7 \<and> value_fld (event s') = 100) \<and>
   midi_process (Some e) s =
     Return ()
       (s\<lparr>stdout := stdout s @ ''Event type: 10\<newline>[50] Control:  7 val(64)\<newline>''\<rparr>)"
proof -
  assume a: "ev_type e = SND_SEQ_EVENT_CONTROLLER" "time_tick e = 50"
    "control_param e = 7" "control_value e = 100"
  have "fmt_d (uint (ev_type e)) = ''10''" "fmt_d (sint (time_tick e)) = ''50''"
    "pad 2 (fmt_x (unat (control_param e))) = '' 7''"
    "pad 2 (fmt_x (unat (control_value e))) = ''64''"
    by (simp_all add: a type_code_defs format_eval)
  then show ?thesis
    using midi_process_controller [OF a(1), of s] by (simp add: create_pack_Some a)
qed

theorem controller_scenario_witness:
  "(\<exists>s'. create_pack (Some controller_example) (initial_state 4210784) = Return () s' \<and>
      type (event s') = 10 \<and> tick_time (event s') = 50 \<and>
      param (event s') = 7 \<and> value_fld (event s') = 100) \<and>
   midi_process (Some controller_example) (initial_state 4210784) =
     Return ()
       ((initial_state 4210784)
          \<lparr>stdout := ''Event type: 10\<newline>[50] Control:  7 val(64)\<newline>''\<rparr>)"
proof -
  have "ev_type controller_example = SND_SEQ_EVENT_CONTROLLER"
    "time_tick controller_example = 50" "control_param controller_example = 7"
    "control_value controller_example = 100"
    by (simp_all add: controller_example_def type_code_defs)
  moreover have "stdout (initial_state 4210784) = []"
    by (simp add: initial_state_def)
  ultimately show ?thesis
    using controller_scenario [of controller_example "initial_state 4210784"]
    by (simp add: type_code_defs)
qed

subsection \<open>The claims about \<^verbatim>\<open>midi_read\<close>\<close>

text \<open>
  C7. The static event is a single slot and the last write wins. For any two reads in
  sequence that deliver the events \<open>A\<close> and then \<open>B\<close>, both calls return the same
  address, \<^verbatim>\<open>&event\<close>; read through that address after the first call the slot holds the
  members of \<open>A\<close>, and read through the address obtained from the first call after the
  second call it holds the members of \<open>B\<close>. The start state is arbitrary, so every call
  of a session returns the address the call before it returned.
\<close>

theorem midi_read_single_slot:
  "\<exists>sA sB.
     midi_read \<lparr>input_rc = cA, input_ev = Some (Some A)\<rparr> s = Return (addr_event s) sA \<and>
     midi_read \<lparr>input_rc = cB, input_ev = Some (Some B)\<rparr> sA = Return (addr_event s) sB \<and>
     load_event sA (addr_event s) =
       Some \<lparr>type = ev_type A, tick_time = time_tick A, time_sec = time_tv_sec A,
             time_nano = time_tv_nsec A, note_fld = note_note A,
             velocity = note_velocity A, off_velocity = note_off_velocity A,
             duration = note_duration A, param = control_param A,
             value_fld = control_value A, channel = note_channel A\<rparr> \<and>
     load_event sB (addr_event s) =
       Some \<lparr>type = ev_type B, tick_time = time_tick B, time_sec = time_tv_sec B,
             time_nano = time_tv_nsec B, note_fld = note_note B,
             velocity = note_velocity B, off_velocity = note_off_velocity B,
             duration = note_duration B, param = control_param B,
             value_fld = control_value B, channel = note_channel B\<rparr>"
proof -
  obtain outA where a: "midi_read \<lparr>input_rc = cA, input_ev = Some (Some A)\<rparr> s =
     Return (addr_event s)
       (s\<lparr>event :=
            \<lparr>type = ev_type A, tick_time = time_tick A, time_sec = time_tv_sec A,
             time_nano = time_tv_nsec A, note_fld = note_note A,
             velocity = note_velocity A, off_velocity = note_off_velocity A,
             duration = note_duration A, param = control_param A,
             value_fld = control_value A, channel = note_channel A\<rparr>,
          stdout := stdout s @ outA,
          seq_calls := seq_calls s @ [Seq_event_input]\<rparr>)" (is "_ = Return _ ?sA")
    using midi_read_Some by blast
  obtain outB where b: "midi_read \<lparr>input_rc = cB, input_ev = Some (Some B)\<rparr> ?sA =
     Return (addr_event ?sA)
       (?sA\<lparr>event :=
            \<lparr>type = ev_type B, tick_time = time_tick B, time_sec = time_tv_sec B,
             time_nano = time_tv_nsec B, note_fld = note_note B,
             velocity = note_velocity B, off_velocity = note_off_velocity B,
             duration = note_duration B, param = control_param B,
             value_fld = control_value B, channel = note_channel B\<rparr>,
          stdout := stdout ?sA @ outB,
          seq_calls := seq_calls ?sA @ [Seq_event_input]\<rparr>)" (is "_ = Return _ ?sB")
    using midi_read_Some by blast
  have "load_event ?sA (addr_event s) = Some (event ?sA)"
    "load_event ?sB (addr_event s) = Some (event ?sB)"
    by (simp_all add: load_event_def)
  with a b show ?thesis
    by (intro exI [of _ ?sA] exI [of _ ?sB]) simp
qed

text \<open>
  C10. \<^verbatim>\<open>midi_read\<close> has no guard against a failed driver read. \<^verbatim>\<open>midi_read_raw\<close> starts
  from a null pointer and ignores the return code of \<^verbatim>\<open>snd_seq_event_input\<close>; when the
  library stores nothing, or stores null, \<^verbatim>\<open>midi_read\<close> ends in a null dereference
  whatever the return code, and \<^verbatim>\<open>midi_process\<close> and \<^verbatim>\<open>create_pack\<close> both dereference a
  null argument. When the library stores a pointer to an event, \<^verbatim>\<open>midi_read\<close> returns.
\<close>

theorem midi_read_null_unguarded:
  "midi_read_raw \<lparr>input_rc = c, input_ev = None\<rparr> s =
     Return None (called Seq_event_input s) \<and>
   midi_read \<lparr>input_rc = c, input_ev = None\<rparr> s = Null_dereference \<and>
   midi_read \<lparr>input_rc = c, input_ev = Some None\<rparr> s = Null_dereference \<and>
   midi_process None s = Null_dereference \<and>
   create_pack None s = Null_dereference \<and>
   (\<exists>s'. midi_read \<lparr>input_rc = c, input_ev = Some (Some e)\<rparr> s = Return (addr_event s) s')"
proof -
  have "\<exists>s'. midi_read \<lparr>input_rc = c, input_ev = Some (Some e)\<rparr> s = Return (addr_event s) s'"
    using midi_read_Some [of c e s] by blast
  then show ?thesis
    by (simp add: midi_read_def midi_read_raw_eq midi_process_def create_pack_def)
qed

lemma note_on_example_signed_tick:
  "fmt_d (sint (time_tick note_on_example)) = ''100''"
  by (simp add: note_on_example_def format_eval)

lemma note_on_example_report:
  "midi_process (Some note_on_example) t =
     Return ()
       (t\<lparr>stdout := stdout t @ ''Event type: 6\<newline>[100] Note on : 40 vel(7f)\<newline>''\<rparr>)"
  by (simp add: midi_process_note_on example_types type_code_text note_on_example_text
      note_on_example_signed_tick)

lemma note_on_example_more_text:
  "fmt_d (uint (note_note note_on_example)) = ''64''"
  "fmt_p 4210784 = ''0x404060''"
  by (simp_all add: note_on_example_def format_eval)

lemma midi_read_note_on_example:
  "output_of (midi_read (delivers note_on_example) (initial_state 4210784)) =
     ''Event type: 6\<newline>[100] Note on : 40 vel(7f)\<newline>'' @
     ''Internal event type 6\<newline>New event location 0x404060\<newline>'' @
     ''--== ALSA Event data: ==--\<newline>Type: 6\<newline>Note: 64\<newline>''"
  by (simp add: delivers_def midi_read_via [OF note_on_example_report] example_types
      type_code_text note_on_example_more_text)
    (simp add: initial_state_def note_on_example_more_text)

lemma spec_read_cycle_note_on_example:
  "output_of (spec_read_cycle (delivers note_on_example) (initial_state 4210784)) =
     ''Internal event type 6\<newline>New event location 0x404060\<newline>'' @
     ''Event type: 6\<newline>[100] Note on : 40 vel(7f)\<newline>'' @
     ''--== ALSA Event data: ==--\<newline>Type: 6\<newline>Note: 64\<newline>''"
  by (simp add: spec_read_cycle_def spec_classify_and_report_def delivers_def
      midi_read_raw_eq create_pack_Some Let_def printf_lines example_types type_code_text
      note_on_example_text note_on_example_signed_tick note_on_example_more_text
      print_def called_def)
    (simp add: initial_state_def note_on_example_more_text)

text \<open>
  C8, as the specification states it: in a read cycle the event is first decoded into
  the slot, and the classifier then dispatches on the normalized event in the slot.
  \<open>spec_read_cycle\<close> is that order. For the note-on event in a fresh process the two
  differ: \<^verbatim>\<open>midi_read\<close> prints the report of \<^verbatim>\<open>midi_process\<close> before the two lines of
  \<^verbatim>\<open>create_pack\<close>, and when \<^verbatim>\<open>midi_process\<close> has returned the slot still holds the
  zeros it started with.
\<close>

theorem midi_read_order_counterexample:
  "midi_read (delivers note_on_example) (initial_state 4210784) \<noteq>
     spec_read_cycle (delivers note_on_example) (initial_state 4210784) \<and>
   output_of (midi_read (delivers note_on_example) (initial_state 4210784)) =
     ''Event type: 6\<newline>[100] Note on : 40 vel(7f)\<newline>'' @
     ''Internal event type 6\<newline>New event location 0x404060\<newline>'' @
     ''--== ALSA Event data: ==--\<newline>Type: 6\<newline>Note: 64\<newline>'' \<and>
   output_of (spec_read_cycle (delivers note_on_example) (initial_state 4210784)) =
     ''Internal event type 6\<newline>New event location 0x404060\<newline>'' @
     ''Event type: 6\<newline>[100] Note on : 40 vel(7f)\<newline>'' @
     ''--== ALSA Event data: ==--\<newline>Type: 6\<newline>Note: 64\<newline>'' \<and>
   map_option event
     (state_of (then_do (midi_read_raw (delivers note_on_example) (initial_state 4210784))
        midi_process)) = Some (event (initial_state 4210784))"
proof -
  let ?m = "midi_read (delivers note_on_example) (initial_state 4210784)"
  let ?c = "spec_read_cycle (delivers note_on_example) (initial_state 4210784)"
  have "output_of ?m \<noteq> output_of ?c"
    by (simp add: midi_read_note_on_example spec_read_cycle_note_on_example)
  then have "?m \<noteq> ?c"
    by auto
  moreover have "map_option event
     (state_of (then_do (midi_read_raw (delivers note_on_example) (initial_state 4210784))
        midi_process)) = Some (event (initial_state 4210784))"
    by (simp add: midi_read_raw_eq delivers_def note_on_example_report print_def called_def)
  ultimately show ?thesis
    using midi_read_note_on_example spec_read_cycle_note_on_example by simp
qed

text \<open>
  C8, amended. In every read cycle that delivers an event, \<^verbatim>\<open>midi_process\<close> runs first, on
  the driver event: its report is the same text whatever the slot holds, and when it
  has returned the slot is as it was before the call. \<^verbatim>\<open>create_pack\<close> then writes the
  event into the slot, and \<^verbatim>\<open>midi_read\<close> prints its three lines from the slot and
  returns \<^verbatim>\<open>&event\<close>.
\<close>

theorem midi_read_reports_then_packs:
  "\<exists>report s2 s3.
     (\<forall>t. midi_process (Some e) t = Return () (t\<lparr>stdout := stdout t @ report\<rparr>)) \<and>
     midi_process (Some e) (s\<lparr>seq_calls := seq_calls s @ [Seq_event_input]\<rparr>) =
       Return () s2 \<and>
     event s2 = event s \<and>
     create_pack (Some e) s2 = Return () s3 \<and>
     midi_read \<lparr>input_rc = c, input_ev = Some (Some e)\<rparr> s =
       Return (addr_event s)
         (s3\<lparr>stdout := stdout s3 @
            ''--== ALSA Event data: ==--\<newline>'' @
            ''Type: '' @ fmt_d (uint (type (event s3))) @ ''\<newline>'' @
            ''Note: '' @ fmt_d (uint (note_fld (event s3))) @ ''\<newline>''\<rparr>)"
proof -
  obtain report where
    r: "\<And>t. midi_process (Some e) t = Return () (t\<lparr>stdout := stdout t @ report\<rparr>)"
    using midi_process_returns by blast
  let ?s1 = "s\<lparr>seq_calls := seq_calls s @ [Seq_event_input]\<rparr>"
  let ?s2 = "?s1\<lparr>stdout := stdout ?s1 @ report\<rparr>"
  have c: "called Seq_event_input s = ?s1"
    by (simp add: called_def)
  obtain s3 where p: "create_pack (Some e) ?s2 = Return () s3"
    by (simp add: create_pack_Some)
  then have "addr_event s3 = addr_event s"
    by (auto simp: create_pack_Some)
  moreover have "event ?s2 = event s"
    by simp
  moreover have "midi_process (Some e) ?s1 = Return () ?s2"
    by (rule r)
  ultimately show ?thesis
    using r p midi_read_delivered [of e s ?s2 s3 c] unfolding c by metis
qed

subsection \<open>The claim about \<^verbatim>\<open>midi_open\<close>\<close>

lemma stringify_messages:
  "stringify ''Could not open sequencer!'' =
     CHR 0x22 # ''Could not open sequencer!'' @ [CHR 0x22]"
  "stringify ''Could not set client name!'' =
     CHR 0x22 # ''Could not set client name!'' @ [CHR 0x22]"
  "stringify ''Could not open port!'' = CHR 0x22 # ''Could not open port!'' @ [CHR 0x22]"
  by (simp_all add: stringify_def)

text \<open>
  C9. When a step of \<^verbatim>\<open>midi_open\<close> fails (the library returns a negative code from
  opening the sequencer, from setting the client name or from creating the port), the
  process exits with status 1. Exactly one line has been printed, \<^verbatim>\<open>ERROR: \<close> and the
  message of that step between double quotes; the library has been called for the steps
  up to the failing one, once each, and for nothing else; and a read that follows
  \<^verbatim>\<open>midi_open\<close> in the program is never made.
\<close>

theorem midi_open_fails_fast:
  "(open_rc r < 0 \<longrightarrow>
      (\<exists>s'. midi_open r s = Exit 1 s' \<and>
         stdout s' = stdout s @
           ''ERROR: '' @ CHR 0x22 # ''Could not open sequencer!'' @ CHR 0x22 # ''\<newline>'' \<and>
         seq_calls s' = seq_calls s @ [Seq_open] \<and>
         then_do (midi_open r s) (\<lambda>_. midi_read a) = Exit 1 s')) \<and>
   (0 \<le> open_rc r \<and> set_client_name_rc r < 0 \<longrightarrow>
      (\<exists>s'. midi_open r s = Exit 1 s' \<and>
         stdout s' = stdout s @
           ''ERROR: '' @ CHR 0x22 # ''Could not set client name!'' @ CHR 0x22 # ''\<newline>'' \<and>
         seq_calls s' = seq_calls s @ [Seq_open, Seq_set_client_name] \<and>
         then_do (midi_open r s) (\<lambda>_. midi_read a) = Exit 1 s')) \<and>
   (0 \<le> open_rc r \<and> 0 \<le> set_client_name_rc r \<and> create_simple_port_rc r < 0 \<longrightarrow>
      (\<exists>s'. midi_open r s = Exit 1 s' \<and>
         stdout s' = stdout s @
           ''ERROR: '' @ CHR 0x22 # ''Could not open port!'' @ CHR 0x22 # ''\<newline>'' \<and>
         seq_calls s' = seq_calls s @ [Seq_open, Seq_set_client_name, Seq_create_simple_port] \<and>
         then_do (midi_open r s) (\<lambda>_. midi_read a) = Exit 1 s'))"
  by (simp add: midi_open_def CHK_def Let_def puts_def print_def called_def
      stringify_messages)

theorem midi_open_fails_fast_witness:
  "(\<exists>s'. midi_open \<lparr>open_rc = - 2, open_handle = None, set_client_name_rc = 0,
            create_simple_port_rc = 0\<rparr> (initial_state 4210784) = Exit 1 s' \<and>
      stdout s' =
        ''ERROR: '' @ CHR 0x22 # ''Could not open sequencer!'' @ CHR 0x22 # ''\<newline>'' \<and>
      seq_calls s' = [Seq_open]) \<and>
   (\<exists>s'. midi_open \<lparr>open_rc = 0, open_handle = Some (Some 1), set_client_name_rc = - 22,
            create_simple_port_rc = 0\<rparr> (initial_state 4210784) = Exit 1 s' \<and>
      stdout s' =
        ''ERROR: '' @ CHR 0x22 # ''Could not set client name!'' @ CHR 0x22 # ''\<newline>'' \<and>
      seq_calls s' = [Seq_open, Seq_set_client_name]) \<and>
   (\<exists>s'. midi_open \<lparr>open_rc = 0, open_handle = Some (Some 1), set_client_name_rc = 0,
            create_simple_port_rc = - 12\<rparr> (initial_state 4210784) = Exit 1 s' \<and>
      stdout s' =
        ''ERROR: '' @ CHR 0x22 # ''Could not open port!'' @ CHR 0x22 # ''\<newline>'' \<and>
      seq_calls s' = [Seq_open, Seq_set_client_name, Seq_create_simple_port])"
  using
    midi_open_fails_fast [of "\<lparr>open_rc = - 2, open_handle = None, set_client_name_rc = 0,
      create_simple_port_rc = 0\<rparr>" "initial_state 4210784" "delivers note_on_example"]
    midi_open_fails_fast [of "\<lparr>open_rc = 0, open_handle = Some (Some 1),
      set_client_name_rc = - 22, create_simple_port_rc = 0\<rparr>" "initial_state 4210784"
      "delivers note_on_example"]
    midi_open_fails_fast [of "\<lparr>open_rc = 0, open_handle = Some (Some 1),
      set_client_name_rc = 0, create_simple_port_rc = - 12\<rparr>" "initial_state 4210784"
      "delivers note_on_example"]
  by (clarsimp simp: initial_state_def)

end
